theory Spec2Isabelle
  imports Main "HOL-Library.AList"
begin

section \<open>JavaScript values\<close>

text \<open>
  The components are typed in TypeScript, but \<open>data.url\<close> of a parsed response is
  whatever the server sent: a missing field reads as \<open>undefined\<close> and flows into the
  state setters and the change callback unchecked. Values that can carry it are
  \<open>jsval\<close>.
\<close>

datatype jsval = Undefined | Str string

text \<open>Truthiness of \<open>if (value)\<close> and \<open>previewUrl && ...\<close>.\<close>

fun truthy :: "jsval \<Rightarrow> bool" where
  "truthy Undefined = False"
| "truthy (Str s) = (s \<noteq> [])"

text \<open>ToString, as a template literal and \<open>String.prototype.replace\<close> apply it.\<close>

fun to_string :: "jsval \<Rightarrow> string" where
  "to_string Undefined = ''undefined''"
| "to_string (Str s) = s"



section \<open>The upload request and the calls a handler makes\<close>

datatype jsfile = File string

text \<open>
  How the request of one attempt settles: \<open>fetch\<close> rejects (\<open>NetworkError\<close>), or it
  resolves to a response with its \<open>ok\<close> flag and a body. \<open>response.json()\<close> rejects on
  a body that is not JSON (\<open>Unparseable\<close>); for a JSON object, \<open>Object u\<close> holds what
  \<open>data.url\<close> reads, \<open>Undefined\<close> when the field is missing.
\<close>

datatype body = Unparseable | Object jsval

datatype response = NetworkError | Http bool body

datatype toast =
    UploadConcluido
  | ErroNoUpload
  | EnviandoImagem
  | ImagemEnviada
  | ErroNoUploadDaImagem

datatype tab = UrlTab | UploadTab

section \<open>The editable document\<close>

text \<open>
  The children of the editor element as a tree. An \<open>img\<close> element carries its identity
  \<open>nid\<close> (handlers hold references to image elements: the event target, the
  \<open>selectedImage\<close> state), its \<open>src\<close> attribute, its class list, its inline style and
  its other attributes, the last two in the order they were first set.
\<close>

record img =
  nid :: nat
  src :: string
  classList :: "string list"
  style :: "(string \<times> string) list"
  attrs :: "(string \<times> string) list"

datatype node = Text string | Img img | Elem string "node list"

text \<open>
  Every call a handler makes, in program order: the browser API
  (\<open>URL.createObjectURL\<close> with the handle it returned, \<open>URL.revokeObjectURL\<close>,
  \<open>fetch\<close>, the calls that change the document), the props callback \<open>onChange\<close>,
  \<open>toast\<close>, and the state setters of the single-image widget.
\<close>

datatype action =
    CreateObjectURL jsfile string
  | RevokeObjectURL jsval
  | Fetch jsfile
  | OnChange jsval
  | Toast toast
  | SetPreviewUrl jsval
  | SetUrlInput jsval
  | SetUploading bool
  | SetLocalImageFile "jsfile option"
  | SetActiveTab tab
  | ExecCommand string jsval
  | InsertNode node
  | AppendChild node
  | RemoveNode img
  | SetInnerHTML string

text \<open>What a trace handed to the form, released, and told the user.\<close>

fun onChanges :: "action list \<Rightarrow> jsval list" where
  "onChanges [] = []"
| "onChanges (OnChange v # as) = v # onChanges as"
| "onChanges (a # as) = onChanges as"


fun toasts :: "action list \<Rightarrow> toast list" where
  "toasts [] = []"
| "toasts (Toast t # as) = t # toasts as"
| "toasts (a # as) = toasts as"

fun fetches :: "action list \<Rightarrow> jsfile list" where
  "fetches [] = []"
| "fetches (Fetch f # as) = f # fetches as"
| "fetches (a # as) = fetches as"

fun allocated :: "action list \<Rightarrow> string list" where
  "allocated [] = []"
| "allocated (CreateObjectURL f h # as) = h # allocated as"
| "allocated (a # as) = allocated as"

section \<open>The single-image widget, src/components/Admin/ImageUpload.tsx\<close>

record image_upload =
  uploading :: bool
  urlInput :: jsval
  previewUrl :: jsval


fun setState :: "action \<Rightarrow> 'a image_upload_scheme \<Rightarrow> 'a image_upload_scheme" where
  "setState (SetPreviewUrl v) s = s\<lparr>previewUrl := v\<rparr>"
| "setState (SetUrlInput v) s = s\<lparr>urlInput := v\<rparr>"
| "setState (SetUploading b) s = s\<lparr>uploading := b\<rparr>"
| "setState a s = s"

text \<open>The state after the setter calls of a trace, in order.\<close>

definition render :: "action list \<Rightarrow> 'a image_upload_scheme \<Rightarrow> 'a image_upload_scheme" where
  "render as s = foldl (\<lambda>s a. setState a s) s as"

text \<open>The effect on \<open>[value]\<close>.\<close>

definition syncValue :: "jsval \<Rightarrow> action list" where
  "syncValue val = (if truthy val then [SetPreviewUrl val, SetUrlInput val] else [])"

text \<open>
  \<open>onDrop\<close> runs up to \<open>await fetch(...)\<close> (\<open>onDrop_begin\<close>) and resumes when the
  request settles (\<open>onDrop_settle\<close>), with the \<open>value\<close> and \<open>blobUrl\<close> of its closure.
  \<open>blobUrl\<close> is what \<open>URL.createObjectURL(file)\<close> returned.
\<close>

definition onDrop_begin :: "jsfile list \<Rightarrow> string \<Rightarrow> action list" where
  "onDrop_begin acceptedFiles blobUrl =
     (case acceptedFiles of
        [] \<Rightarrow> []
      | file # _ \<Rightarrow>
          [CreateObjectURL file blobUrl, SetPreviewUrl (Str blobUrl), SetUploading True,
           Fetch file])"

definition onDrop_catch :: "jsval \<Rightarrow> string \<Rightarrow> action list" where
  "onDrop_catch val blobUrl =
     [RevokeObjectURL (Str blobUrl), SetPreviewUrl val, Toast ErroNoUpload]"

definition onDrop_settle :: "jsval \<Rightarrow> string \<Rightarrow> response \<Rightarrow> action list" where
  "onDrop_settle val blobUrl r =
     (case r of
        NetworkError \<Rightarrow> onDrop_catch val blobUrl
      | Http ok b \<Rightarrow>
          if ok then
            (case b of
               Unparseable \<Rightarrow> onDrop_catch val blobUrl
             | Object serverUrl \<Rightarrow>
                 [SetUrlInput serverUrl, SetPreviewUrl serverUrl, OnChange serverUrl,
                  RevokeObjectURL (Str blobUrl), Toast UploadConcluido])
          else
            [RevokeObjectURL (Str blobUrl), SetPreviewUrl val] @ onDrop_catch val blobUrl)
     @ [SetUploading False]"

definition onDrop :: "jsval \<Rightarrow> jsfile list \<Rightarrow> string \<Rightarrow> response \<Rightarrow> action list" where
  "onDrop val acceptedFiles blobUrl r =
     (case acceptedFiles of
        [] \<Rightarrow> []
      | _ # _ \<Rightarrow> onDrop_begin acceptedFiles blobUrl @ onDrop_settle val blobUrl r)"




section \<open>The single-image widget with tabs, src/unnamed/part_000\<close>

text \<open>
  The second file holds another \<open>ImageUpload\<close> and another \<open>RichTextEditor\<close>; their
  functions carry the suffix \<open>_p0\<close> here.
\<close>

record image_upload_p0 = image_upload +
  localImageFile :: "jsfile option"
  activeTab :: tab

definition initial_p0 :: image_upload_p0 where
  "initial_p0 =
     \<lparr>uploading = False, urlInput = Str [], previewUrl = Str [],
      localImageFile = None, activeTab = UrlTab\<rparr>"

fun setState_p0 :: "action \<Rightarrow> image_upload_p0 \<Rightarrow> image_upload_p0" where
  "setState_p0 (SetLocalImageFile f) s = s\<lparr>localImageFile := f\<rparr>"
| "setState_p0 (SetActiveTab t) s = s\<lparr>activeTab := t\<rparr>"
| "setState_p0 a s = setState a s"

definition render_p0 :: "action list \<Rightarrow> image_upload_p0 \<Rightarrow> image_upload_p0" where
  "render_p0 as s = foldl (\<lambda>s a. setState_p0 a s) s as"

definition syncValue_p0 :: "jsval \<Rightarrow> action list" where
  "syncValue_p0 val =
     (if truthy val then [SetPreviewUrl val, SetUrlInput val, SetActiveTab UrlTab] else [])"

definition onDrop_begin_p0 :: "jsfile list \<Rightarrow> string \<Rightarrow> action list" where
  "onDrop_begin_p0 acceptedFiles blobUrl =
     (case acceptedFiles of
        [] \<Rightarrow> []
      | file # _ \<Rightarrow>
          [CreateObjectURL file blobUrl, SetPreviewUrl (Str blobUrl),
           SetLocalImageFile (Some file), OnChange (Str blobUrl), SetUploading True,
           Fetch file])"

definition onDrop_catch_p0 :: "string \<Rightarrow> action list" where
  "onDrop_catch_p0 blobUrl =
     [RevokeObjectURL (Str blobUrl), SetPreviewUrl (Str []), SetLocalImageFile None,
      OnChange (Str []), Toast ErroNoUpload]"

definition onDrop_settle_p0 :: "string \<Rightarrow> response \<Rightarrow> action list" where
  "onDrop_settle_p0 blobUrl r =
     (case r of
        NetworkError \<Rightarrow> onDrop_catch_p0 blobUrl
      | Http ok b \<Rightarrow>
          if ok then
            (case b of
               Unparseable \<Rightarrow> onDrop_catch_p0 blobUrl
             | Object serverUrl \<Rightarrow> [OnChange serverUrl, Toast UploadConcluido])
          else
            [RevokeObjectURL (Str blobUrl), SetPreviewUrl (Str []), SetLocalImageFile None,
             OnChange (Str [])] @ onDrop_catch_p0 blobUrl)
     @ [SetUploading False]"

definition onDrop_p0 :: "jsfile list \<Rightarrow> string \<Rightarrow> response \<Rightarrow> action list" where
  "onDrop_p0 acceptedFiles blobUrl r =
     (case acceptedFiles of
        [] \<Rightarrow> []
      | _ # _ \<Rightarrow> onDrop_begin_p0 acceptedFiles blobUrl @ onDrop_settle_p0 blobUrl r)"



section \<open>String.prototype.replace with a string pattern\<close>

text \<open>\<open>s.indexOf(pat)\<close>, \<open>None\<close> for -1.\<close>

fun indexOf :: "string \<Rightarrow> string \<Rightarrow> nat option" where
  "indexOf [] pat = (if pat = [] then Some 0 else None)"
| "indexOf (c # cs) pat =
     (if take (length pat) (c # cs) = pat then Some 0 else map_option Suc (indexOf cs pat))"

text \<open>
  GetSubstitution for a match without captures: \<open>$$\<close>, \<open>$&\<close>, \<open>$`\<close> and \<open>$'\<close> in the
  replacement stand for a dollar sign, the match, the text before it and the text after
  it; any other \<open>$\<close> is literal.
\<close>

fun getSubstitution :: "string \<Rightarrow> string \<Rightarrow> string \<Rightarrow> string \<Rightarrow> string" where
  "getSubstitution matched preceding following [] = []"
| "getSubstitution matched preceding following [c] = [c]"
| "getSubstitution matched preceding following (c # d # r) =
     (if c = CHR ''$'' \<and> d = CHR ''$'' then CHR ''$'' # getSubstitution matched preceding following r
      else if c = CHR ''$'' \<and> d = CHR ''&'' then matched @ getSubstitution matched preceding following r
      else if c = CHR ''$'' \<and> d = CHR 0x60 then preceding @ getSubstitution matched preceding following r
      else if c = CHR ''$'' \<and> d = CHR 0x27 then following @ getSubstitution matched preceding following r
      else c # getSubstitution matched preceding following (d # r))"

text \<open>\<open>content.replace(pat, rep)\<close>: the first occurrence only.\<close>

definition js_replace :: "string \<Rightarrow> string \<Rightarrow> jsval \<Rightarrow> string" where
  "js_replace content pat rep =
     (case indexOf content pat of
        None \<Rightarrow> content
      | Some i \<Rightarrow>
          take i content
          @ getSubstitution pat (take i content) (drop (i + length pat) content) (to_string rep)
          @ drop (i + length pat) content)"

text \<open>How often \<open>pat\<close> occurs in \<open>s\<close>, counting every position where it starts.\<close>

fun occurrences :: "string \<Rightarrow> string \<Rightarrow> nat" where
  "occurrences pat [] = (if pat = [] then 1 else 0)"
| "occurrences pat (c # cs) =
     (if take (length pat) (c # cs) = pat then 1 else 0) + occurrences pat cs"

section \<open>Document queries and updates\<close>

text \<open>\<open>querySelectorAll('img')\<close> on a node and on the editor, in document order.\<close>

fun imgs_of :: "node \<Rightarrow> img list" where
  "imgs_of (Text t) = []"
| "imgs_of (Img a) = [a]"
| "imgs_of (Elem tag cs) = concat (map imgs_of cs)"

definition querySelectorAll_img :: "node list \<Rightarrow> img list" where
  "querySelectorAll_img d = concat (map imgs_of d)"

text \<open>\<open>images.forEach(f)\<close> for an \<open>f\<close> that updates the element it is given.\<close>

fun map_img :: "(img \<Rightarrow> img) \<Rightarrow> node \<Rightarrow> node" where
  "map_img f (Text t) = Text t"
| "map_img f (Img a) = Img (f a)"
| "map_img f (Elem tag cs) = Elem tag (map (map_img f) cs)"

definition forEach_img :: "(img \<Rightarrow> img) \<Rightarrow> node list \<Rightarrow> node list" where
  "forEach_img f d = map (map_img f) d"

text \<open>\<open>images.forEach(img => img.remove())\<close> for the images that satisfy \<open>p\<close>.\<close>

fun remove_img :: "(img \<Rightarrow> bool) \<Rightarrow> node \<Rightarrow> node list" where
  "remove_img p (Text t) = [Text t]"
| "remove_img p (Img a) = (if p a then [] else [Img a])"
| "remove_img p (Elem tag cs) = [Elem tag (concat (map (remove_img p) cs))]"

definition remove_imgs :: "(img \<Rightarrow> bool) \<Rightarrow> node list \<Rightarrow> node list" where
  "remove_imgs p d = concat (map (remove_img p) d)"

text \<open>The document with every image taken out: all that is not an image, as a tree.\<close>

definition without_images :: "node list \<Rightarrow> node list" where
  "without_images d = remove_imgs (\<lambda>a. True) d"




definition selected :: "img \<Rightarrow> bool" where
  "selected a = (''image-selected'' \<in> set (classList a))"

definition selected_images :: "node list \<Rightarrow> img list" where
  "selected_images d = filter selected (querySelectorAll_img d)"

section \<open>The browser\<close>

text \<open>
  What the handlers leave to the browser: serialising the editor's children
  (\<open>innerHTML\<close> read), parsing markup (\<open>innerHTML\<close> assigned), \<open>document.execCommand\<close>,
  and \<open>content.replace(new RegExp(pattern, 'g'), replacement)\<close>. They are parameters
  of the handlers that use them.
\<close>

record browser =
  innerHTML :: "node list \<Rightarrow> string"
  parseHTML :: "string \<Rightarrow> node list"
  execCommand :: "string \<Rightarrow> jsval \<Rightarrow> node list \<Rightarrow> node list"
  replace_regexp_g :: "string \<Rightarrow> string \<Rightarrow> string \<Rightarrow> string"

text \<open>
  A serialiser for closed examples: text and attribute values escaped, \<open>br\<close> and
  \<open>img\<close> without an end tag.
\<close>

fun escape_text :: "string \<Rightarrow> string" where
  "escape_text [] = []"
| "escape_text (c # cs) =
     (if c = CHR ''&'' then ''&amp;'' else if c = CHR ''<'' then ''&lt;''
      else if c = CHR ''>'' then ''&gt;'' else [c]) @ escape_text cs"

fun escape_attr :: "string \<Rightarrow> string" where
  "escape_attr [] = []"
| "escape_attr (c # cs) =
     (if c = CHR ''&'' then ''&amp;'' else if c = CHR 0x22 then ''&quot;'' else [c])
     @ escape_attr cs"

definition html_attr :: "string \<Rightarrow> string \<Rightarrow> string" where
  "html_attr k v = '' '' @ k @ ''='' @ [CHR 0x22] @ escape_attr v @ [CHR 0x22]"

definition css_text :: "(string \<times> string) list \<Rightarrow> string" where
  "css_text st = concat (map (\<lambda>(k, v). k @ '': '' @ v @ '';'') st)"

definition html_of_img :: "img \<Rightarrow> string" where
  "html_of_img a =
     ''<img'' @ html_attr ''src'' (src a)
     @ (if style a = [] then [] else html_attr ''style'' (css_text (style a)))
     @ concat (map (\<lambda>(k, v). html_attr k v) (attrs a))
     @ (if classList a = [] then []
        else html_attr ''class'' (foldr (\<lambda>c r. if r = [] then c else c @ '' '' @ r) (classList a) []))
     @ ''>''"

fun html_of :: "node \<Rightarrow> string" where
  "html_of (Text t) = escape_text t"
| "html_of (Img a) = html_of_img a"
| "html_of (Elem tag cs) =
     (if tag = ''br'' then ''<br>''
      else ''<'' @ tag @ ''>'' @ concat (map html_of cs) @ ''</'' @ tag @ ''>'')"

definition serialize :: "node list \<Rightarrow> string" where
  "serialize d = concat (map html_of d)"

section \<open>The rich-text editor, src/components/Admin/RichTextEditor.tsx\<close>

text \<open>
  \<open>editorRef\<close> is \<open>editorRef.current\<close>: the children of the editor element, \<open>None\<close>
  while the element is not mounted. \<open>uploadedImages\<close> is the \<open>Map\<close> from handle to
  server URL, in insertion order.
\<close>

record rte =
  editorRef :: "node list option"

record rich_text_editor = rte +
  uploadedImages :: "(string \<times> string) list"

definition handleInput :: "browser \<Rightarrow> rich_text_editor \<Rightarrow> action list" where
  "handleInput B s =
     (case editorRef s of
        None \<Rightarrow> []
      | Some d \<Rightarrow>
          [OnChange (Str (fold (\<lambda>(blobUrl, serverUrl) content.
                                  replace_regexp_g B blobUrl serverUrl content)
                               (uploadedImages s) (innerHTML B d)))])"



text \<open>\<open>img[src="blobUrl"]\<close>\<close>

definition has_src :: "string \<Rightarrow> img \<Rightarrow> bool" where
  "has_src blobUrl a = (src a = blobUrl)"

text \<open>\<open>baseURL\<close> is \<open>apiClient.baseURL\<close>, a constant of a module outside these files.\<close>

definition handleImageUpload_settle ::
  "string \<Rightarrow> string \<Rightarrow> response \<Rightarrow> rich_text_editor \<Rightarrow> rich_text_editor \<times> action list" where
  "handleImageUpload_settle baseURL blobUrl r s =
     (case r of
        NetworkError \<Rightarrow> (s, [Toast ErroNoUploadDaImagem])
      | Http ok b \<Rightarrow>
          if ok then
            (case b of
               Unparseable \<Rightarrow> (s, [Toast ErroNoUploadDaImagem])
             | Object u \<Rightarrow>
                 (s\<lparr>uploadedImages :=
                      AList.update blobUrl (baseURL @ to_string u) (uploadedImages s)\<rparr>,
                  [Toast ImagemEnviada]))
          else
            (s\<lparr>editorRef := map_option (remove_imgs (has_src blobUrl)) (editorRef s)\<rparr>,
             (case editorRef s of
                None \<Rightarrow> []
              | Some d \<Rightarrow> map RemoveNode (filter (has_src blobUrl) (querySelectorAll_img d)))
             @ [RevokeObjectURL (Str blobUrl), Toast ErroNoUploadDaImagem]))"


section \<open>The rich-text editor with image controls, src/unnamed/part_000\<close>

record rich_text_editor_p0 = rte +
  selectedImage :: "nat option"

definition handleInput_p0 :: "browser \<Rightarrow> rich_text_editor_p0 \<Rightarrow> action list" where
  "handleInput_p0 B s =
     (case editorRef s of None \<Rightarrow> [] | Some d \<Rightarrow> [OnChange (Str (innerHTML B d))])"

text \<open>
  \<open>setupImageHandlers\<close>: besides the listeners, every image gets the pointer cursor and
  the \<open>data-resizable\<close> attribute.
\<close>

definition setupImageHandlers :: "node list \<Rightarrow> node list" where
  "setupImageHandlers d =
     forEach_img (\<lambda>a. a\<lparr>style := AList.update ''cursor'' ''pointer'' (style a),
                         attrs := AList.update ''data-resizable'' ''true'' (attrs a)\<rparr>) d"






text \<open>
  What \<open>window.getSelection()\<close> gives after the editor is focused: no selection object
  (\<open>selection?.getRangeAt(0)\<close> is then \<open>undefined\<close>), a selection without a range
  (\<open>getRangeAt(0)\<close> throws), or a selection whose first range lies between children of
  the editor: \<open>Range i n\<close> selects \<open>n\<close> nodes from position \<open>i\<close> (\<open>n = 0\<close>: a caret).
\<close>

datatype selection = NoSelection | NoRange | Range nat nat

datatype error = IndexSizeError

definition new_image :: "nat \<Rightarrow> string \<Rightarrow> string \<Rightarrow> img" where
  "new_image k imageUrl display =
     \<lparr>nid = k, src = imageUrl, classList = [],
      style = [(''max-width'', ''300px''), (''height'', ''auto''), (''margin'', ''8px''),
               (''border-radius'', ''4px''), (''display'', display), (''cursor'', ''pointer'')],
      attrs = [(''data-resizable'', ''true''), (''draggable'', ''false''),
               (''contenteditable'', ''false'')]\<rparr>"

text \<open>\<open>k\<close> is the identity of the element \<open>document.createElement('img')\<close> returns.\<close>

definition insertImageAtCursor ::
  "browser \<Rightarrow> selection \<Rightarrow> nat \<Rightarrow> string \<Rightarrow> rich_text_editor_p0
   \<Rightarrow> error + rich_text_editor_p0 \<times> action list" where
  "insertImageAtCursor B sel k imageUrl s =
     (case editorRef s of
        None \<Rightarrow> Inr (s, [])
      | Some d \<Rightarrow>
          (case sel of
             NoRange \<Rightarrow> Inl IndexSizeError
           | Range i n \<Rightarrow>
               (let img = Img (new_image k imageUrl ''inline-block'');
                    s' = s\<lparr>editorRef := Some (take i d @ [img] @ drop (i + n) d)\<rparr>
                in Inr (s', InsertNode img # handleInput_p0 B s'))
           | NoSelection \<Rightarrow>
               (let img = Img (new_image k imageUrl ''block'');
                    s' = s\<lparr>editorRef := Some (d @ [Elem ''br'' [], img])\<rparr>
                in Inr (s', [AppendChild (Elem ''br'' []), AppendChild img]
                            @ handleInput_p0 B s'))))"

text \<open>
  The \<open>onchange\<close> of the file input, up to \<open>await fetch(...)\<close>. An exception of
  \<open>insertImageAtCursor\<close> lands in the \<open>catch\<close> handler: no request is made.
\<close>

definition handleImageUpload_begin_p0 ::
  "browser \<Rightarrow> selection \<Rightarrow> nat \<Rightarrow> jsfile list \<Rightarrow> string \<Rightarrow> rich_text_editor_p0
   \<Rightarrow> rich_text_editor_p0 \<times> action list" where
  "handleImageUpload_begin_p0 B sel k files blobUrl s =
     (case files of
        [] \<Rightarrow> (s, [])
      | file # _ \<Rightarrow>
          (case insertImageAtCursor B sel k blobUrl s of
             Inl e \<Rightarrow> (s, [CreateObjectURL file blobUrl, Toast ErroNoUploadDaImagem])
           | Inr (s', as) \<Rightarrow>
               (s', CreateObjectURL file blobUrl # as @ [Toast EnviandoImagem, Fetch file])))"

definition handleImageUpload_settle_p0 ::
  "browser \<Rightarrow> string \<Rightarrow> response \<Rightarrow> rich_text_editor_p0 \<Rightarrow> rich_text_editor_p0 \<times> action list" where
  "handleImageUpload_settle_p0 B blobUrl r s =
     (case r of
        NetworkError \<Rightarrow> (s, [Toast ErroNoUploadDaImagem])
      | Http ok b \<Rightarrow>
          if ok then
            (case b of
               Unparseable \<Rightarrow> (s, [Toast ErroNoUploadDaImagem])
             | Object serverUrl \<Rightarrow>
                 (case editorRef s of
                    None \<Rightarrow> (s, [RevokeObjectURL (Str blobUrl), Toast ImagemEnviada])
                  | Some d \<Rightarrow>
                      (let updatedContent = js_replace (innerHTML B d) blobUrl serverUrl
                       in (s\<lparr>editorRef :=
                                Some (setupImageHandlers (parseHTML B updatedContent))\<rparr>,
                           [SetInnerHTML updatedContent, OnChange (Str updatedContent),
                            RevokeObjectURL (Str blobUrl), Toast ImagemEnviada]))))
          else
            (let s' = s\<lparr>editorRef := map_option (remove_imgs (has_src blobUrl)) (editorRef s)\<rparr>
             in (s',
                 (case editorRef s of
                    None \<Rightarrow> []
                  | Some d \<Rightarrow>
                      map RemoveNode (filter (has_src blobUrl) (querySelectorAll_img d))
                      @ handleInput_p0 B s')
                 @ [RevokeObjectURL (Str blobUrl), Toast ErroNoUploadDaImagem])))"














section \<open>Outcomes, traces and runs\<close>




text \<open>The value the form holds after a trace: that of the last \<open>onChange\<close> call.\<close>

definition final_onChange :: "action list \<Rightarrow> jsval option" where
  "final_onChange as = (case rev (onChanges as) of [] \<Rightarrow> None | v # _ \<Rightarrow> Some v)"




text \<open>The editor's children, none while it is not mounted.\<close>

definition document :: "'a rte_scheme \<Rightarrow> node list" where
  "document s = (case editorRef s of None \<Rightarrow> [] | Some d \<Rightarrow> d)"

text \<open>
  A document in which image elements are told apart by their identity and at most one
  of them carries the \<open>image-selected\<close> class.
\<close>

definition one_selection :: "node list \<Rightarrow> bool" where
  "one_selection d =
     (distinct (map nid (querySelectorAll_img d)) \<and> length (selected_images d) \<le> 1)"






section \<open>Documents for closed examples\<close>

text \<open>
  Two images with the same handle as source, as after copying an inserted image within
  the editor; and an editor holding a paragraph with text and an image, followed by a
  second image, none selected.
\<close>

definition two_images :: "node list" where
  "two_images =
     [Img \<lparr>nid = 1, src = ''blob:1'', classList = [], style = [], attrs = []\<rparr>,
      Img \<lparr>nid = 2, src = ''blob:1'', classList = [], style = [], attrs = []\<rparr>]"

definition example_editor :: rich_text_editor_p0 where
  "example_editor =
     \<lparr>editorRef = Some
        [Elem ''p'' [Text ''text'',
           Img \<lparr>nid = 1, src = ''https://cdn/a.png'', classList = [], style = [], attrs = []\<rparr>],
         Img \<lparr>nid = 2, src = ''https://cdn/b.png'', classList = [], style = [], attrs = []\<rparr>],
      selectedImage = None\<rparr>"

section \<open>An empty drop\<close>

text \<open>
  C10. When the accepted-file list is empty, \<open>onDrop\<close> of either single-image widget
  makes no call at all: nothing is allocated, fetched, notified or handed to
  \<open>onChange\<close>, and the state after it is the state before it.
\<close>

theorem onDrop_empty_noop:
  "onDrop val [] blobUrl r = [] \<and> render (onDrop val [] blobUrl r) s = s
   \<and> allocated (onDrop val [] blobUrl r) = [] \<and> fetches (onDrop val [] blobUrl r) = []
   \<and> toasts (onDrop val [] blobUrl r) = [] \<and> onChanges (onDrop val [] blobUrl r) = []
   \<and> onDrop_p0 [] blobUrl r = [] \<and> render_p0 (onDrop_p0 [] blobUrl r) s0 = s0
   \<and> allocated (onDrop_p0 [] blobUrl r) = [] \<and> fetches (onDrop_p0 [] blobUrl r) = []
   \<and> toasts (onDrop_p0 [] blobUrl r) = [] \<and> onChanges (onDrop_p0 [] blobUrl r) = []"
  by (simp add: onDrop_def onDrop_p0_def render_def render_p0_def)

section \<open>Facts shared by the proofs\<close>

lemmas onDrop_defs =
  onDrop_def onDrop_begin_def onDrop_settle_def onDrop_catch_def
  onDrop_p0_def onDrop_begin_p0_def onDrop_settle_p0_def onDrop_catch_p0_def
  render_def render_p0_def final_onChange_def





section \<open>A failed upload in the single-image widget\<close>

text \<open>
  C2. The claim: after a failed upload the bound reference is what it was before the
  file was selected. The widget of part_000 does not restore it: with the durable
  reference \<open>https://cdn/old.png\<close> bound and shown, a drop whose upload is answered with
  a non-success status (or whose request fails) ends with \<open>onChange('')\<close> and an empty
  preview. The widget of ImageUpload.tsx does restore the preview to \<open>value\<close> and
  leaves the form alone (\<open>failed_settle\<close>).
\<close>

theorem onDrop_p0_failure_clears:
  "previewUrl (render_p0 (syncValue_p0 (Str ''https://cdn/old.png'')) initial_p0)
     = Str ''https://cdn/old.png''
   \<and> final_onChange (onDrop_p0 [File ''photo.png''] ''blob:1'' (Http False Unparseable))
     = Some (Str [])
   \<and> previewUrl (render_p0 (onDrop_p0 [File ''photo.png''] ''blob:1'' (Http False Unparseable))
        (render_p0 (syncValue_p0 (Str ''https://cdn/old.png'')) initial_p0)) = Str []
   \<and> final_onChange (onDrop_p0 [File ''photo.png''] ''blob:1'' NetworkError) = Some (Str [])"
  by (simp add: onDrop_defs syncValue_p0_def initial_p0_def)

section \<open>The three error conditions\<close>




section \<open>The preview comes before the request\<close>




lemma querySelectorAll_img_Nil: "querySelectorAll_img [] = []"
  by (simp add: querySelectorAll_img_def)


lemma fetches_handleInput: "fetches (handleInput B s) = []"
  by (simp add: handleInput_def split: option.split)





section \<open>A successful upload\<close>








section \<open>Releasing the handle\<close>















section \<open>What the change callback receives\<close>









section \<open>Images of a document under the handlers\<close>



lemma imgs_of_remove_img:
  "concat (map imgs_of (remove_img p n)) = filter (\<lambda>a. \<not> p a) (imgs_of n)"
proof (induction n)
  case (Elem tag cs)
  then show ?case by (induction cs) simp_all
qed simp_all

lemma querySelectorAll_img_remove:
  "querySelectorAll_img (remove_imgs p d) = filter (\<lambda>a. \<not> p a) (querySelectorAll_img d)"
  by (induction d) (simp_all add: querySelectorAll_img_def remove_imgs_def imgs_of_remove_img)

lemma without_images_remove_img:
  "concat (map (remove_img (\<lambda>a. True)) (remove_img p n)) = remove_img (\<lambda>a. True) n"
proof (induction n)
  case (Elem tag cs)
  then show ?case by (induction cs) simp_all
qed simp_all

lemma without_images_remove_imgs:
  "without_images (remove_imgs p d) = without_images d"
  by (induction d) (simp_all add: without_images_def remove_imgs_def without_images_remove_img)

lemma without_images_Nil: "without_images [] = []"
  by (simp add: without_images_def remove_imgs_def)
















lemma one_selection_Nil: "one_selection []"
  by (simp add: one_selection_def selected_images_def querySelectorAll_img_Nil)















section \<open>The selected image\<close>




section \<open>Reconciling the document\<close>

text \<open>
  C1. The claim: every occurrence of the handle in the content is replaced by the
  durable URL. The editor of part_000 calls \<open>content.replace(blobUrl, serverUrl)\<close> with
  a string pattern, which replaces the first occurrence only: with two images carrying
  the handle, the content handed to \<open>onChange\<close> and written back to the editor still
  has the handle in the second one, and the handle is revoked.
\<close>

theorem replace_first_occurrence_only:
  \<open>occurrences ''blob:1'' (serialize two_images) = 2
   \<and> snd (handleImageUpload_settle_p0 (B\<lparr>innerHTML := serialize\<rparr>) ''blob:1''
        (Http True (Object (Str ''https://cdn/x/photo.png'')))
        \<lparr>editorRef = Some two_images, selectedImage = None\<rparr>)
     = [SetInnerHTML ''<img src="https://cdn/x/photo.png"><img src="blob:1">'',
        OnChange (Str ''<img src="https://cdn/x/photo.png"><img src="blob:1">''),
        RevokeObjectURL (Str ''blob:1''), Toast ImagemEnviada]
   \<and> occurrences ''blob:1'' ''<img src="https://cdn/x/photo.png"><img src="blob:1">'' = 1\<close>
  by (simp add: two_images_def serialize_def html_of_img_def html_attr_def
        handleImageUpload_settle_p0_def js_replace_def Let_def)

section \<open>A failed upload in the editors\<close>

lemma non_success_removes_images:
  "querySelectorAll_img (document (fst (handleImageUpload_settle base h (Http False b) s1)))
   = filter (\<lambda>a. src a \<noteq> h) (querySelectorAll_img (document s1))"
  "without_images (document (fst (handleImageUpload_settle base h (Http False b) s1)))
   = without_images (document s1)"
  "querySelectorAll_img (document (fst (handleImageUpload_settle_p0 B h (Http False b) s0)))
   = filter (\<lambda>a. src a \<noteq> h) (querySelectorAll_img (document s0))"
  "without_images (document (fst (handleImageUpload_settle_p0 B h (Http False b) s0)))
   = without_images (document s0)"
  by (cases "editorRef s1"; cases "editorRef s0";
      simp add: handleImageUpload_settle_def handleImageUpload_settle_p0_def document_def
        Let_def querySelectorAll_img_remove without_images_remove_imgs has_src_def
        querySelectorAll_img_Nil)+

text \<open>
  C8. The claim: whenever an upload fails, the images carrying its handle leave the
  document and nothing else changes. That holds for a non-success status, in both
  editors: the images left are those with another source, and the document without its
  images is the same. It does not hold when the request itself fails: the \<open>catch\<close> handler only
  notifies, the document keeps the image with the handle, and nothing is released.
\<close>

theorem network_failure_keeps_image:
  "handleImageUpload_settle base h NetworkError s1 = (s1, [Toast ErroNoUploadDaImagem])
   \<and> handleImageUpload_settle_p0 B h NetworkError s0 = (s0, [Toast ErroNoUploadDaImagem])
   \<and> map src (querySelectorAll_img (document (fst (handleImageUpload_settle_p0 B ''blob:1''
         NetworkError (fst (handleImageUpload_begin_p0 B NoSelection 3 [File ''photo.png''] ''blob:1''
            example_editor))))))
     = [''https://cdn/a.png'', ''https://cdn/b.png'', ''blob:1'']
   \<and> querySelectorAll_img (document (fst (handleImageUpload_settle_p0 B h (Http False b) s0)))
     = filter (\<lambda>a. src a \<noteq> h) (querySelectorAll_img (document s0))
   \<and> without_images (document (fst (handleImageUpload_settle_p0 B h (Http False b) s0)))
     = without_images (document s0)
   \<and> querySelectorAll_img (document (fst (handleImageUpload_settle base h (Http False b) s1)))
     = filter (\<lambda>a. src a \<noteq> h) (querySelectorAll_img (document s1))
   \<and> without_images (document (fst (handleImageUpload_settle base h (Http False b) s1)))
     = without_images (document s1)"
  by (simp add: non_success_removes_images)
     (simp add: handleImageUpload_settle_def handleImageUpload_settle_p0_def
        handleImageUpload_begin_p0_def insertImageAtCursor_def example_editor_def Let_def
        document_def querySelectorAll_img_def new_image_def)

end
